theory Spec2Isabelle
  imports Main "HOL-Library.Word"
begin

section \<open>The Stewart platform controller window (GUI/stewart\_platform.cpp)\<close>

text \<open>
  The window class \<open>StewartPlatform\<close> owns six actuator positions, a serial port, a Leap
  Motion listener and the widgets of its form. Its member functions are embedded as
  functions on a record of that state. A member function that can hit a \<open>Q_ASSERT\<close>
  returns a sum: \<open>Inl\<close> carries the failed assertion, \<open>Inr\<close> the state afterwards
  (\<open>Q_ASSERT\<close> as in a debug build, where a failed assertion ends the program).
  The signal/slot connections made in the constructor are the function \<open>handle\<close>.
\<close>

subsection \<open>Integers and their decimal text\<close>

text \<open>
  The source's \<open>int\<close> is a 32-bit two's complement value, read with \<open>sint\<close>.
  \<open>QString::number(int)\<close> widens to 64 bits and prints base 10: a minus sign for a
  negative value, then the digits of the magnitude without leading zeros.
\<close>

type_synonym cint = "32 word"

definition digit_char :: "nat \<Rightarrow> char" where
  "digit_char d = ''0123456789'' ! d"

function digits_of :: "nat \<Rightarrow> string" where
  "digits_of n =
     (if n < 10 then [digit_char n] else digits_of (n div 10) @ [digit_char (n mod 10)])"
  by pat_completeness auto
termination
  by (relation "measure (\<lambda>n. n)") auto

declare digits_of.simps [simp del]

definition QString_number :: "cint \<Rightarrow> string" where
  "QString_number n =
     (if sint n < 0 then CHR ''-'' # digits_of (nat (- sint n)) else digits_of (nat (sint n)))"

text \<open>
  Reading decimal text back, written from the wire format's words ("decimal signed
  integers"): the value of a digit string, and of a string with an optional minus sign.
  It is used only to say what \<open>QString_number\<close> prints.
\<close>

definition digit_value :: "char \<Rightarrow> nat" where
  "digit_value c = length (takeWhile (\<lambda>x. x \<noteq> c) ''0123456789'')"

definition is_digit :: "char \<Rightarrow> bool" where
  "is_digit c = (c \<in> set ''0123456789'')"

definition decimal_value :: "string \<Rightarrow> nat" where
  "decimal_value ds = foldl (\<lambda>acc c. 10 * acc + digit_value c) 0 ds"

definition signed_decimal_value :: "string \<Rightarrow> int" where
  "signed_decimal_value s =
     (case s of
        [] \<Rightarrow> 0
      | c # ds \<Rightarrow> if c = CHR ''-'' then - int (decimal_value ds) else int (decimal_value s))"

subsection \<open>Message templates: \<open>tr\<close> and \<open>QString::arg\<close>\<close>

text \<open>
  No translator is installed by this file, so \<open>tr\<close> returns its source text.
  \<open>QString::arg(a)\<close> looks for place markers: a percent sign, an optional \<open>L\<close>, one
  or two digits. It replaces every marker carrying the lowest number by \<open>a\<close>, and
  returns the string as it is when there is no marker. The scan below follows the
  toolkit's \<open>findArgEscapes\<close>: after a percent sign that starts no marker the scan goes
  on at the next character.
\<close>

definition tr :: "string \<Rightarrow> string" where
  "tr s = s"

datatype arg_token = Lit char | Escape nat string

definition escape_after :: "string \<Rightarrow> (nat \<times> string \<times> string) option" where
  "escape_after cs =
     (let l = (case cs of [] \<Rightarrow> [] | c # r \<Rightarrow> if c = CHR ''L'' then [c] else []);
          ds = drop (length l) cs
      in case ds of
           [] \<Rightarrow> None
         | d1 # r1 \<Rightarrow>
             if \<not> is_digit d1 then None
             else (case r1 of
                     [] \<Rightarrow> Some (digit_value d1, l @ [d1], [])
                   | d2 # r2 \<Rightarrow>
                       if is_digit d2
                       then Some (10 * digit_value d1 + digit_value d2, l @ [d1, d2], r2)
                       else Some (digit_value d1, l @ [d1], r1)))"

function findArgEscapes :: "string \<Rightarrow> arg_token list" where
  "findArgEscapes [] = []"
| "findArgEscapes (c # cs) =
     (if c = CHR ''%''
      then (case escape_after cs of
              Some (n, txt, rest) \<Rightarrow> Escape n (c # txt) # findArgEscapes rest
            | None \<Rightarrow> Lit c # findArgEscapes cs)
      else Lit c # findArgEscapes cs)"
  by pat_completeness auto
termination
proof (relation "measure length")
  fix c cs x2 x y xa ya
  assume "escape_after cs = Some x2" and "(x, y) = x2" and "(xa, ya) = y"
  then have "escape_after cs = Some (x, xa, ya)" by simp
  then have "length ya < Suc (length cs)"
    by (cases cs) (auto simp: escape_after_def Let_def split: list.splits if_splits)
  then show "(ya, c # cs) \<in> measure length" by simp
qed simp_all

primrec escape_numbers :: "arg_token list \<Rightarrow> nat list" where
  "escape_numbers [] = []"
| "escape_numbers (t # ts) =
     (case t of Lit c \<Rightarrow> escape_numbers ts | Escape n txt \<Rightarrow> n # escape_numbers ts)"

primrec replaceArgEscapes :: "nat \<Rightarrow> string \<Rightarrow> arg_token list \<Rightarrow> string" where
  "replaceArgEscapes m a [] = []"
| "replaceArgEscapes m a (t # ts) =
     (case t of
        Lit c \<Rightarrow> c # replaceArgEscapes m a ts
      | Escape n txt \<Rightarrow> (if n = m then a else txt) @ replaceArgEscapes m a ts)"

definition QString_arg :: "string \<Rightarrow> string \<Rightarrow> string" where
  "QString_arg s a =
     (let toks = findArgEscapes s; ns = escape_numbers toks
      in if ns = [] then s else replaceArgEscapes (min_list ns) a toks)"

subsection \<open>The serial port, the form and the listener\<close>

text \<open>
  \<open>QSerialPort\<close> as this file uses it: the open flag, the six configuration values set
  before opening, the text of the last error, and the data handed to \<open>write\<close> so far.
  The enumerations are the toolkit's.
\<close>

datatype DataBits = Data5 | Data6 | Data7 | Data8
datatype Parity = NoParity | EvenParity | OddParity | SpaceParity | MarkParity
datatype StopBits = OneStop | OneAndHalfStop | TwoStop
datatype FlowControl = NoFlowControl | HardwareControl | SoftwareControl

record QSerialPort =
  isOpen :: bool
  portName :: string
  portBaudRate :: cint
  portDataBits :: DataBits
  portParity :: Parity
  portStopBits :: StopBits
  portFlowControl :: FlowControl
  errorString :: string
  written :: "string list"

text \<open>
  Modelled from the spec: the declaration of \<open>SerialSettingsDialog::Settings\<close> is
  missing. The spec lists name, baud rate, data bits, parity, stop bits and flow
  control "plus human-readable string forms for logging"; these are the fields that
  \<open>openSerialPort\<close> reads. The dialog is an outside collaborator: its current settings
  are an argument.
\<close>

record Settings =
  name :: string
  baudRate :: cint
  stringBaudRate :: string
  dataBits :: DataBits
  stringDataBits :: string
  parity :: Parity
  stringParity :: string
  stopBits :: StopBits
  stringStopBits :: string
  flowControl :: FlowControl
  stringFlowControl :: string

text \<open>
  Modelled from the spec: the form (\<open>Ui::StewartPlatform\<close>) and the declaration of
  \<open>LeapEventListener\<close> are missing. The records hold what the member functions set:
  the text of the two status labels, whether the send button and the actuator box are
  enabled, the entries appended to the log, and the listener's enabled flag.
\<close>

record Ui =
  label_serial_val :: string
  label_leap_val :: string
  button_send_enabled :: bool
  actuatorBox_enabled :: bool
  log_text :: "string list"

record LeapEventListener =
  is_leap_enabled :: bool

text \<open>
  The window. \<open>clock\<close> is the wall clock as text, one value for each time it is read,
  and \<open>clock_reads\<close> counts the reads: \<open>QTime::currentTime().toString()\<close> is
  \<open>currentTime\<close>.
\<close>

record StewartPlatform =
  ui :: Ui
  m_serial :: QSerialPort
  leap :: LeapEventListener
  actuator_positions :: "cint list"
  clock :: "nat \<Rightarrow> string"
  clock_reads :: nat

datatype failure = Q_ASSERT string

text \<open>
  Modelled from the spec: the header \<open>stewart_platform.h\<close> that defines the macro
  \<open>NUM_ACTUATORS\<close> is missing; the spec fixes the number of actuators at six.
\<close>

definition NUM_ACTUATORS :: nat where
  "NUM_ACTUATORS = 6"

subsection \<open>Member functions\<close>

definition currentTime :: "StewartPlatform \<Rightarrow> string" where
  "currentTime st = clock st (clock_reads st)"

definition log :: "StewartPlatform \<Rightarrow> string \<Rightarrow> StewartPlatform" where
  "log st entry =
     st\<lparr>ui := (ui st)\<lparr>log_text := log_text (ui st) @ [''('' @ currentTime st @ '') '' @ entry]\<rparr>,
        clock_reads := Suc (clock_reads st)\<rparr>"

text \<open>
  \<open>writeSerialData\<close>: the assertion, then one call of \<open>write\<close> whose result is dropped.
  \<open>qPrintable\<close> leaves the ASCII text of a command line as it is.
\<close>

definition writeSerialData :: "StewartPlatform \<Rightarrow> string \<Rightarrow> failure + StewartPlatform" where
  "writeSerialData st data =
     (if isOpen (m_serial st)
      then Inr (st\<lparr>m_serial := (m_serial st)\<lparr>written := written (m_serial st) @ [data]\<rparr>\<rparr>)
      else Inl (Q_ASSERT ''m_serial->isOpen()''))"

text \<open>
  The loop of \<open>sendActuatorPositions\<close>, from index \<open>i\<close> with the string built so far.
  \<open>QVector::operator[]\<close> asserts that the index is in range.
\<close>

function sendActuatorPositions_loop :: "cint list \<Rightarrow> nat \<Rightarrow> string \<Rightarrow> failure + string" where
  "sendActuatorPositions_loop actuator_pos i s =
     (if i < NUM_ACTUATORS
      then (if i < length actuator_pos
            then sendActuatorPositions_loop actuator_pos (Suc i)
                   (s @ QString_number (actuator_pos ! i) @
                      (if i < NUM_ACTUATORS - 1 then '' '' else [CHR 0x0A]))
            else Inl (Q_ASSERT ''index out of range''))
      else Inr s)"
  by pat_completeness auto
termination
  by (relation "measure (\<lambda>(actuator_pos, i, s). NUM_ACTUATORS - i)") auto

declare sendActuatorPositions_loop.simps [simp del]

definition sendActuatorPositions :: "StewartPlatform \<Rightarrow> cint list \<Rightarrow> failure + StewartPlatform" where
  "sendActuatorPositions st actuator_pos =
     (case sendActuatorPositions_loop actuator_pos 0 [] of
        Inl e \<Rightarrow> Inl e
      | Inr s \<Rightarrow> writeSerialData st s)"

definition readSerialData :: "StewartPlatform \<Rightarrow> string \<Rightarrow> failure + StewartPlatform" where
  "readSerialData st received =
     (if isOpen (m_serial st) then Inr (log st received)
      else Inl (Q_ASSERT ''m_serial->isOpen()''))"

definition closeSerialPort :: "StewartPlatform \<Rightarrow> StewartPlatform" where
  "closeSerialPort st =
     (if isOpen (m_serial st)
      then (let st1 = st\<lparr>m_serial := (m_serial st)\<lparr>isOpen := False\<rparr>\<rparr>;
                st2 = log st1 (QString_arg (tr ''<COM>  Disconnected from %1'') (portName (m_serial st1)))
            in st2\<lparr>ui := (ui st2)\<lparr>label_serial_val := tr ''Disconnected'',
                                  button_send_enabled := False\<rparr>\<rparr>)
      else st)"

text \<open>
  The outcome of \<open>m_serial->open(QIODevice::ReadWrite)\<close> is the environment's: the device
  opens, or it does not and the port keeps a description of the error. The port is
  closed when \<open>open\<close> is called, since \<open>closeSerialPort\<close> ran just before.
\<close>

datatype open_attempt = Opens | Fails string

definition QSerialPort_open :: "QSerialPort \<Rightarrow> open_attempt \<Rightarrow> bool \<times> QSerialPort" where
  "QSerialPort_open port att =
     (case att of
        Opens \<Rightarrow> (True, port\<lparr>isOpen := True\<rparr>)
      | Fails e \<Rightarrow> (False, port\<lparr>errorString := e\<rparr>))"

definition connected_message :: "Settings \<Rightarrow> string" where
  "connected_message p =
     QString_arg (QString_arg (QString_arg (QString_arg (QString_arg (QString_arg
       (tr ''<COM>  Connected to %1 : %2, %3, %4, %5, %6'')
       (name p)) (stringBaudRate p)) (stringDataBits p)) (stringParity p))
       (stringStopBits p)) (stringFlowControl p)"

definition openSerialPort :: "StewartPlatform \<Rightarrow> Settings \<Rightarrow> open_attempt \<Rightarrow> StewartPlatform" where
  "openSerialPort st p att =
     (let st1 = closeSerialPort st;
          port = (m_serial st1)\<lparr>portName := name p, portBaudRate := baudRate p,
                    portDataBits := dataBits p, portParity := parity p,
                    portStopBits := stopBits p, portFlowControl := flowControl p\<rparr>;
          (ok, port') = QSerialPort_open port att;
          st2 = st1\<lparr>m_serial := port'\<rparr>
      in if ok
         then log (st2\<lparr>ui := (ui st2)\<lparr>label_serial_val := QString_arg (tr ''%1'') (name p),
                                      button_send_enabled := True\<rparr>\<rparr>)
                  (connected_message p)
         else log st2 (QString_arg (tr ''<COM>  Connection error: %1'') (errorString (m_serial st2))))"

definition enableLeapMotion :: "StewartPlatform \<Rightarrow> bool \<Rightarrow> StewartPlatform" where
  "enableLeapMotion st c =
     st\<lparr>ui := (ui st)\<lparr>actuatorBox_enabled := \<not> c\<rparr>,
        leap := (leap st)\<lparr>is_leap_enabled := c\<rparr>\<rparr>"

definition onLeapConnected :: "StewartPlatform \<Rightarrow> bool \<Rightarrow> StewartPlatform" where
  "onLeapConnected st connected =
     (if connected
      then log (st\<lparr>ui := (ui st)\<lparr>label_leap_val := tr ''Connected''\<rparr>\<rparr>) (tr ''<LEAP> Connected'')
      else log (st\<lparr>ui := (ui st)\<lparr>label_leap_val := tr ''Disconnected''\<rparr>\<rparr>) (tr ''<LEAP> Disconnected''))"

text \<open>
  The slot connected to the \<open>valueChanged\<close> signal of slider \<open>i\<close> (the lambda in the
  constructor's loop): \<open>actuator_positions[i] = j\<close>.
\<close>

definition slider_valueChanged :: "StewartPlatform \<Rightarrow> nat \<Rightarrow> cint \<Rightarrow> failure + StewartPlatform" where
  "slider_valueChanged st i j =
     (if i < length (actuator_positions st)
      then Inr (st\<lparr>actuator_positions := (actuator_positions st)[i := j]\<rparr>)
      else Inl (Q_ASSERT ''index out of range''))"

text \<open>
  Modelled from the spec: the source of \<open>LeapEventListener\<close> is missing. The spec says
  that a frame is forwarded "if LeapEnabled is true", and the window only sets the
  listener's flag \<open>is_leap_enabled\<close>; so the listener emits \<open>LeapFrameUpdate\<close> for a frame
  exactly when the flag is set.
\<close>

definition LeapFrameUpdate_emitted :: "LeapEventListener \<Rightarrow> bool" where
  "LeapFrameUpdate_emitted l = is_leap_enabled l"

subsection \<open>Construction\<close>

text \<open>
  A new \<open>QSerialPort\<close> is closed, has an empty name and the toolkit's default
  configuration, and nothing has been written to it.
\<close>

definition QSerialPort_new :: QSerialPort where
  "QSerialPort_new =
     \<lparr>isOpen = False, portName = [], portBaudRate = 9600, portDataBits = Data8,
      portParity = NoParity, portStopBits = OneStop, portFlowControl = NoFlowControl,
      errorString = ''Unknown error'', written = []\<rparr>"

text \<open>
  The constructor. The form as \<open>setupUi\<close> leaves it, the new listener and the clock are
  arguments. The constructor sets the positions to zero, both status labels to
  "Disconnected" and disables the send button; its loop over the field/slider pairs
  and its \<open>connect\<close> calls change none of the state kept here.
\<close>

definition StewartPlatform_init :: "Ui \<Rightarrow> LeapEventListener \<Rightarrow> (nat \<Rightarrow> string) \<Rightarrow> StewartPlatform" where
  "StewartPlatform_init ui0 leap0 clk =
     \<lparr>ui = ui0\<lparr>label_serial_val := tr ''Disconnected'',
               label_leap_val := tr ''Disconnected'',
               button_send_enabled := False\<rparr>,
      m_serial = QSerialPort_new,
      leap = leap0,
      actuator_positions = [0, 0, 0, 0, 0, 0],
      clock = clk,
      clock_reads = 0\<rparr>"

subsection \<open>Events\<close>

text \<open>
  One constructor for each connection made in the constructor. \<open>SettingsUpdated\<close>
  carries the dialog's settings and the outcome of the open that follows; \<open>ReadyRead\<close>
  carries what \<open>readAll\<close> returns; \<open>LeapFrame\<close> is a frame at the listener. A disabled
  button emits no \<open>clicked\<close>.
\<close>

datatype event =
    SliderValueChanged nat cint
  | SendClicked
  | SettingsUpdated Settings open_attempt
  | ErrorOccurred
  | ReadyRead string
  | LeapMotionToggled bool
  | LeapFrame "cint list"
  | LeapConnected bool

fun handle :: "event \<Rightarrow> StewartPlatform \<Rightarrow> failure + StewartPlatform" where
  "handle (SliderValueChanged i j) st = slider_valueChanged st i j"
| "handle SendClicked st =
     (if button_send_enabled (ui st) then sendActuatorPositions st (actuator_positions st)
      else Inr st)"
| "handle (SettingsUpdated p att) st = Inr (openSerialPort st p att)"
| "handle ErrorOccurred st = Inr (closeSerialPort st)"
| "handle (ReadyRead received) st = readSerialData st received"
| "handle (LeapMotionToggled c) st = Inr (enableLeapMotion st c)"
| "handle (LeapFrame v) st =
     (if LeapFrameUpdate_emitted (leap st) then sendActuatorPositions st v else Inr st)"
| "handle (LeapConnected connected) st = Inr (onLeapConnected st connected)"

fun run :: "event list \<Rightarrow> StewartPlatform \<Rightarrow> failure + StewartPlatform" where
  "run [] st = Inr st"
| "run (e # es) st = (case handle e st of Inl f \<Rightarrow> Inl f | Inr st' \<Rightarrow> run es st')"

text \<open>
  What holds of the window whenever it waits for an event: there are six positions,
  and the send button is enabled exactly while the port is open.
\<close>

definition consistent :: "StewartPlatform \<Rightarrow> bool" where
  "consistent st =
     (length (actuator_positions st) = NUM_ACTUATORS \<and>
      button_send_enabled (ui st) = isOpen (m_serial st))"

text \<open>
  A string in which no place marker of \<open>QString::arg\<close> can start.
\<close>

definition plain :: "string \<Rightarrow> bool" where
  "plain s = (CHR ''%'' \<notin> set s)"

subsection \<open>A concrete window\<close>

text \<open>
  A form, a listener, a clock and the settings of the spec's end-to-end scenario
  (port COM3 at 9600 baud), on which the functions are evaluated below.
\<close>

definition form0 :: Ui where
  "form0 =
     \<lparr>label_serial_val = ''TextLabel'', label_leap_val = ''TextLabel'',
      button_send_enabled = True, actuatorBox_enabled = True, log_text = []\<rparr>"

definition listener0 :: LeapEventListener where
  "listener0 = \<lparr>is_leap_enabled = False\<rparr>"

definition noon :: "nat \<Rightarrow> string" where
  "noon n = ''12:00:00''"

definition com3 :: Settings where
  "com3 =
     \<lparr>name = ''COM3'', baudRate = 9600, stringBaudRate = ''9600'',
      dataBits = Data8, stringDataBits = ''8'', parity = NoParity, stringParity = ''None'',
      stopBits = OneStop, stringStopBits = ''1'',
      flowControl = NoFlowControl, stringFlowControl = ''None''\<rparr>"

definition window0 :: StewartPlatform where
  "window0 = StewartPlatform_init form0 listener0 noon"

section \<open>Properties\<close>

subsection \<open>Decimal text\<close>

lemma below_ten: "d < 10 \<Longrightarrow> d \<in> {0, 1, 2, 3, 4, 5, 6, 7, 8, 9::nat}"
  by auto

lemma digit_char_is_digit: "d < 10 \<Longrightarrow> is_digit (digit_char d)"
  by (drule below_ten) (auto simp: digit_char_def is_digit_def)

lemma digit_value_digit_char: "d < 10 \<Longrightarrow> digit_value (digit_char d) = d"
  by (drule below_ten) (auto simp: digit_char_def digit_value_def)

lemma digits_of_digits: "c \<in> set (digits_of n) \<Longrightarrow> is_digit c"
proof (induction n arbitrary: c rule: digits_of.induct)
  case (1 n)
  show ?case
  proof (cases "n < 10")
    case True
    with "1.prems" show ?thesis
      by (simp add: digits_of.simps [of n] digit_char_is_digit)
  next
    case False
    with "1.prems" "1.IH" show ?thesis
      by (auto simp: digits_of.simps [of n] digit_char_is_digit)
  qed
qed

lemma decimal_value_snoc: "decimal_value (ds @ [c]) = 10 * decimal_value ds + digit_value c"
  by (simp add: decimal_value_def)

lemma decimal_value_digits_of: "decimal_value (digits_of n) = n"
proof (induction n rule: digits_of.induct)
  case (1 n)
  show ?case
  proof (cases "n < 10")
    case True
    then show ?thesis
      by (simp add: digits_of.simps [of n] decimal_value_def digit_value_digit_char)
  next
    case False
    then have "decimal_value (digits_of n) = 10 * (n div 10) + n mod 10"
      using "1.IH" by (simp add: digits_of.simps [of n] decimal_value_snoc digit_value_digit_char)
    then show ?thesis by simp
  qed
qed

lemma digits_of_not_Nil: "digits_of n \<noteq> []"
  by (simp add: digits_of.simps [of n])

lemma is_digit_not_sign: "is_digit c \<Longrightarrow> c \<noteq> CHR ''-''"
  by (auto simp: is_digit_def)

lemma QString_number_chars: "c \<in> set (QString_number n) \<Longrightarrow> c = CHR ''-'' \<or> is_digit c"
  by (auto simp: QString_number_def dest: digits_of_digits split: if_splits)

lemma QString_number_no_space: "CHR '' '' \<notin> set (QString_number n)"
  using QString_number_chars [of "CHR '' ''" n] by (auto simp: is_digit_def)

lemma QString_number_no_newline: "CHR 0x0A \<notin> set (QString_number n)"
  using QString_number_chars [of "CHR 0x0A" n] by (auto simp: is_digit_def)

lemma QString_number_not_Nil: "QString_number n \<noteq> []"
  by (simp add: QString_number_def digits_of_not_Nil)

lemma signed_decimal_value_digits: "signed_decimal_value (digits_of n) = int n"
proof (cases "digits_of n")
  case Nil
  then show ?thesis by (simp add: digits_of_not_Nil)
next
  case (Cons c ds)
  then have "c \<in> set (digits_of n)" by simp
  then have "c \<noteq> CHR ''-''" using digits_of_digits is_digit_not_sign by blast
  then show ?thesis
    using Cons decimal_value_digits_of [of n] by (simp add: signed_decimal_value_def)
qed

lemma signed_decimal_value_QString_number: "signed_decimal_value (QString_number n) = sint n"
  by (simp add: QString_number_def signed_decimal_value_digits)
     (simp add: signed_decimal_value_def decimal_value_digits_of)

lemma sendActuatorPositions_loop_six:
  "sendActuatorPositions_loop [a, b, c, d, e, f] 0 [] =
     Inr (QString_number a @ '' '' @ QString_number b @ '' '' @ QString_number c @ '' '' @
          QString_number d @ '' '' @ QString_number e @ '' '' @ QString_number f @ ''\<newline>'')"
  by (simp add: sendActuatorPositions_loop.simps NUM_ACTUATORS_def)

lemma QString_number_0: "QString_number 0 = ''0''"
  by (simp add: QString_number_def digits_of.simps digit_char_def)

subsection \<open>Message templates\<close>

lemma arg_percent1: "QString_arg ''%1'' a = a"
  by (simp add: QString_arg_def escape_after_def is_digit_def digit_value_def)

lemma arg_disconnected:
  "QString_arg ''<COM>  Disconnected from %1'' a = ''<COM>  Disconnected from '' @ a"
  by (simp add: QString_arg_def escape_after_def is_digit_def digit_value_def)

lemma arg_connection_error:
  "QString_arg ''<COM>  Connection error: %1'' a = ''<COM>  Connection error: '' @ a"
  by (simp add: QString_arg_def escape_after_def is_digit_def digit_value_def)

lemma findArgEscapes_plain:
  "CHR ''%'' \<notin> set xs \<Longrightarrow> findArgEscapes (xs @ ys) = map Lit xs @ findArgEscapes ys"
  by (induction xs) auto

lemma escape_numbers_plain: "escape_numbers (map Lit xs @ ts) = escape_numbers ts"
  by (induction xs) auto

lemma replaceArgEscapes_plain:
  "replaceArgEscapes m a (map Lit xs @ ts) = xs @ replaceArgEscapes m a ts"
  by (induction xs) auto

lemma connected_message_plain:
  assumes "plain (name p)" "plain (stringBaudRate p)" "plain (stringDataBits p)"
    "plain (stringParity p)" "plain (stringStopBits p)" "plain (stringFlowControl p)"
  shows "connected_message p =
    ''<COM>  Connected to '' @ name p @ '' : '' @ stringBaudRate p @ '', '' @
    stringDataBits p @ '', '' @ stringParity p @ '', '' @ stringStopBits p @ '', '' @
    stringFlowControl p"
  using assms
  by (simp add: connected_message_def plain_def QString_arg_def tr_def escape_after_def
      is_digit_def digit_value_def findArgEscapes_plain escape_numbers_plain
      replaceArgEscapes_plain)

subsection \<open>Closing and opening the port\<close>

lemma closeSerialPort_closed: "\<not> isOpen (m_serial (closeSerialPort st))"
  by (simp add: closeSerialPort_def log_def Let_def)

lemma closeSerialPort_not_open: "\<not> isOpen (m_serial st) \<Longrightarrow> closeSerialPort st = st"
  by (simp add: closeSerialPort_def)

lemma closeSerialPort_idem: "closeSerialPort (closeSerialPort st) = closeSerialPort st"
  by (simp add: closeSerialPort_not_open closeSerialPort_closed)

lemma closeSerialPort_open:
  "isOpen (m_serial st) \<Longrightarrow>
   closeSerialPort st =
     st\<lparr>m_serial := (m_serial st)\<lparr>isOpen := False\<rparr>,
        ui := (ui st)\<lparr>log_text := log_text (ui st) @
                 [''('' @ currentTime st @ '') <COM>  Disconnected from '' @ portName (m_serial st)],
               label_serial_val := ''Disconnected'', button_send_enabled := False\<rparr>,
        clock_reads := Suc (clock_reads st)\<rparr>"
  by (simp add: closeSerialPort_def log_def Let_def arg_disconnected currentTime_def tr_def)

lemma openSerialPort_Opens:
  "openSerialPort st p Opens =
     (closeSerialPort st)
       \<lparr>m_serial := (m_serial (closeSerialPort st))
          \<lparr>portName := name p, portBaudRate := baudRate p, portDataBits := dataBits p,
           portParity := parity p, portStopBits := stopBits p,
           portFlowControl := flowControl p, isOpen := True\<rparr>,
        ui := (ui (closeSerialPort st))
          \<lparr>label_serial_val := name p, button_send_enabled := True,
           log_text := log_text (ui (closeSerialPort st)) @
             [''('' @ currentTime (closeSerialPort st) @ '') '' @ connected_message p]\<rparr>,
        clock_reads := Suc (clock_reads (closeSerialPort st))\<rparr>"
  by (simp add: openSerialPort_def QSerialPort_open_def Let_def log_def currentTime_def tr_def
      arg_percent1)

lemma openSerialPort_Fails:
  "openSerialPort st p (Fails e) =
     (closeSerialPort st)
       \<lparr>m_serial := (m_serial (closeSerialPort st))
          \<lparr>portName := name p, portBaudRate := baudRate p, portDataBits := dataBits p,
           portParity := parity p, portStopBits := stopBits p,
           portFlowControl := flowControl p, errorString := e\<rparr>,
        ui := (ui (closeSerialPort st))
          \<lparr>log_text := log_text (ui (closeSerialPort st)) @
             [''('' @ currentTime (closeSerialPort st) @ '') <COM>  Connection error: '' @ e]\<rparr>,
        clock_reads := Suc (clock_reads (closeSerialPort st))\<rparr>"
  by (simp add: openSerialPort_def QSerialPort_open_def Let_def log_def currentTime_def tr_def
      arg_connection_error)

subsection \<open>The invariant of the event loop\<close>

lemma consistent_init: "consistent (StewartPlatform_init ui0 leap0 clk)"
  by (simp add: consistent_def StewartPlatform_init_def QSerialPort_new_def NUM_ACTUATORS_def)

lemma consistent_closeSerialPort: "consistent st \<Longrightarrow> consistent (closeSerialPort st)"
  by (cases "isOpen (m_serial st)")
     (simp_all add: closeSerialPort_open closeSerialPort_not_open consistent_def)

lemma consistent_openSerialPort: "consistent st \<Longrightarrow> consistent (openSerialPort st p att)"
proof -
  assume "consistent st"
  then have c: "consistent (closeSerialPort st)" by (rule consistent_closeSerialPort)
  show ?thesis
  proof (cases att)
    case Opens
    with c show ?thesis by (simp add: openSerialPort_Opens consistent_def)
  next
    case (Fails e)
    with c show ?thesis by (simp add: openSerialPort_Fails consistent_def)
  qed
qed

lemma consistent_writeSerialData:
  "consistent st \<Longrightarrow> writeSerialData st data = Inr st' \<Longrightarrow> consistent st'"
  by (auto simp: writeSerialData_def consistent_def split: if_splits)

lemma consistent_sendActuatorPositions:
  "consistent st \<Longrightarrow> sendActuatorPositions st v = Inr st' \<Longrightarrow> consistent st'"
  by (auto simp: sendActuatorPositions_def split: sum.splits dest: consistent_writeSerialData)

lemma handle_consistent: "consistent st \<Longrightarrow> handle e st = Inr st' \<Longrightarrow> consistent st'"
proof (cases e)
  case (SliderValueChanged i j)
  assume "consistent st" "handle e st = Inr st'"
  with SliderValueChanged show ?thesis
    by (auto simp: slider_valueChanged_def consistent_def split: if_splits)
next
  case SendClicked
  assume "consistent st" "handle e st = Inr st'"
  with SendClicked show ?thesis
    by (auto split: if_splits dest: consistent_sendActuatorPositions)
next
  case (SettingsUpdated p att)
  assume "consistent st" "handle e st = Inr st'"
  with SettingsUpdated show ?thesis
    by (auto simp: consistent_openSerialPort)
next
  case ErrorOccurred
  assume "consistent st" "handle e st = Inr st'"
  with ErrorOccurred show ?thesis
    by (auto simp: consistent_closeSerialPort)
next
  case (ReadyRead received)
  assume "consistent st" "handle e st = Inr st'"
  with ReadyRead show ?thesis
    by (auto simp: readSerialData_def log_def consistent_def split: if_splits)
next
  case (LeapMotionToggled c)
  assume "consistent st" "handle e st = Inr st'"
  with LeapMotionToggled show ?thesis
    by (auto simp: enableLeapMotion_def consistent_def)
next
  case (LeapFrame v)
  assume "consistent st" "handle e st = Inr st'"
  with LeapFrame show ?thesis
    by (auto split: if_splits dest: consistent_sendActuatorPositions)
next
  case (LeapConnected connected)
  assume "consistent st" "handle e st = Inr st'"
  with LeapConnected show ?thesis
    by (auto simp: onLeapConnected_def log_def consistent_def split: if_splits)
qed

lemma run_consistent: "consistent st \<Longrightarrow> run es st = Inr st' \<Longrightarrow> consistent st'"
proof (induction es arbitrary: st)
  case Nil
  then show ?case by simp
next
  case (Cons e es)
  then show ?case
    by (auto split: sum.splits dest: handle_consistent)
qed

lemma reachable_consistent:
  "run es (StewartPlatform_init ui0 leap0 clk) = Inr st \<Longrightarrow> consistent st"
  using consistent_init run_consistent by blast

lemma run_errors: "run (replicate (Suc n) ErrorOccurred) st = Inr (closeSerialPort st)"
  by (induction n arbitrary: st) (simp_all add: closeSerialPort_idem)

subsection \<open>The command line\<close>

text \<open>
  Claim C1. For six integers \<open>a\<close> to \<open>f\<close> the loop of \<open>sendActuatorPositions\<close> builds
  the decimal text of \<open>a\<close>, a space, the text of \<open>b\<close>, and so on up to the text of
  \<open>f\<close>, which is followed by one newline and by no space; that string is what is
  handed to \<open>writeSerialData\<close>. The text of a number is not empty, has no space and no
  newline in it, and reads back as the number. For 1, 2, 3, 4, 5, 6 the line is
  "1 2 3 4 5 6" and a newline.
\<close>

theorem sendActuatorPositions_wire_format:
  "sendActuatorPositions_loop [a, b, c, d, e, f] 0 [] =
     Inr (QString_number a @ '' '' @ QString_number b @ '' '' @ QString_number c @ '' '' @
          QString_number d @ '' '' @ QString_number e @ '' '' @ QString_number f @ ''\<newline>'')
   \<and> sendActuatorPositions st [a, b, c, d, e, f] =
       writeSerialData st
         (QString_number a @ '' '' @ QString_number b @ '' '' @ QString_number c @ '' '' @
          QString_number d @ '' '' @ QString_number e @ '' '' @ QString_number f @ ''\<newline>'')
   \<and> QString_number n \<noteq> []
   \<and> CHR '' '' \<notin> set (QString_number n)
   \<and> CHR 0x0A \<notin> set (QString_number n)
   \<and> signed_decimal_value (QString_number n) = sint n
   \<and> sendActuatorPositions_loop [1, 2, 3, 4, 5, 6] 0 [] = Inr ''1 2 3 4 5 6\<newline>''"
proof -
  have "sendActuatorPositions_loop [1, 2, 3, 4, 5, 6] 0 [] = Inr ''1 2 3 4 5 6\<newline>''"
    by (simp add: sendActuatorPositions_loop_six QString_number_def digits_of.simps digit_char_def)
  then show ?thesis
    by (simp add: sendActuatorPositions_def sendActuatorPositions_loop_six
        QString_number_not_Nil QString_number_no_space QString_number_no_newline
        signed_decimal_value_QString_number del: append.simps)
qed

subsection \<open>The connection\<close>

lemma m_serial_closeSerialPort:
  "m_serial (closeSerialPort st) = (m_serial st)\<lparr>isOpen := False\<rparr>"
  by (cases "isOpen (m_serial st)") (simp_all add: closeSerialPort_open closeSerialPort_not_open)

lemma m_serial_openSerialPort_Opens:
  "m_serial (openSerialPort st p Opens) =
     (m_serial st)\<lparr>portName := name p, portBaudRate := baudRate p, portDataBits := dataBits p,
       portParity := parity p, portStopBits := stopBits p, portFlowControl := flowControl p,
       isOpen := True\<rparr>"
  by (simp add: openSerialPort_Opens m_serial_closeSerialPort)

text \<open>
  What \<open>openSerialPort\<close> does for every state and every settings value. It closes the
  port first, so that a close in front of it changes nothing; it sets the port's name,
  baud rate, data bits, parity, stop bits and flow control to those of the settings,
  whatever the outcome of the open. When the open succeeds the port is open, the serial
  label shows the port name, the send button is enabled, and the log has one more line
  than after the close: the time and \<open>connected_message\<close>. Opening again with the same
  settings gives the same port, label and button.
\<close>

lemma openSerialPort_effect:
  "\<not> isOpen (m_serial (closeSerialPort st))
   \<and> openSerialPort (closeSerialPort st) p att = openSerialPort st p att
   \<and> portName (m_serial (openSerialPort st p att)) = name p
   \<and> portBaudRate (m_serial (openSerialPort st p att)) = baudRate p
   \<and> portDataBits (m_serial (openSerialPort st p att)) = dataBits p
   \<and> portParity (m_serial (openSerialPort st p att)) = parity p
   \<and> portStopBits (m_serial (openSerialPort st p att)) = stopBits p
   \<and> portFlowControl (m_serial (openSerialPort st p att)) = flowControl p
   \<and> isOpen (m_serial (openSerialPort st p Opens))
   \<and> label_serial_val (ui (openSerialPort st p Opens)) = name p
   \<and> button_send_enabled (ui (openSerialPort st p Opens))
   \<and> log_text (ui (openSerialPort st p Opens)) =
       log_text (ui (closeSerialPort st)) @
         [''('' @ currentTime (closeSerialPort st) @ '') '' @ connected_message p]
   \<and> m_serial (openSerialPort (openSerialPort st p Opens) p Opens) =
       m_serial (openSerialPort st p Opens)
   \<and> label_serial_val (ui (openSerialPort (openSerialPort st p Opens) p Opens)) = name p
   \<and> button_send_enabled (ui (openSerialPort (openSerialPort st p Opens) p Opens))"
proof -
  have idem: "openSerialPort (closeSerialPort st) p att = openSerialPort st p att"
    by (simp add: openSerialPort_def closeSerialPort_idem)
  have cfg: "portName (m_serial (openSerialPort st p att)) = name p
     \<and> portBaudRate (m_serial (openSerialPort st p att)) = baudRate p
     \<and> portDataBits (m_serial (openSerialPort st p att)) = dataBits p
     \<and> portParity (m_serial (openSerialPort st p att)) = parity p
     \<and> portStopBits (m_serial (openSerialPort st p att)) = stopBits p
     \<and> portFlowControl (m_serial (openSerialPort st p att)) = flowControl p"
    by (cases att) (simp_all add: openSerialPort_Opens openSerialPort_Fails)
  have again: "m_serial (openSerialPort (openSerialPort st p Opens) p Opens) =
       m_serial (openSerialPort st p Opens)"
    by (simp add: m_serial_openSerialPort_Opens)
  show ?thesis
    using idem cfg again
    by (simp add: closeSerialPort_closed openSerialPort_Opens)
qed

lemma window0_closed: "\<not> isOpen (m_serial window0)"
  by (simp add: window0_def StewartPlatform_init_def QSerialPort_new_def)

lemma com3_plain:
  "plain (name com3) \<and> plain (stringBaudRate com3) \<and> plain (stringDataBits com3) \<and>
   plain (stringParity com3) \<and> plain (stringStopBits com3) \<and> plain (stringFlowControl com3)"
  by (simp add: com3_def plain_def)

lemma connected0_open: "isOpen (m_serial (openSerialPort window0 com3 Opens))"
  by (simp add: openSerialPort_Opens)

text \<open>
  The spec's scenario: on the new window, a successful open with the settings for COM3
  at 9600 baud logs the full configuration.
\<close>

lemma openSerialPort_com3:
  "isOpen (m_serial (openSerialPort window0 com3 Opens))
   \<and> label_serial_val (ui (openSerialPort window0 com3 Opens)) = ''COM3''
   \<and> button_send_enabled (ui (openSerialPort window0 com3 Opens))
   \<and> log_text (ui (openSerialPort window0 com3 Opens)) =
       [''(12:00:00) <COM>  Connected to COM3 : 9600, 8, None, 1, None'']"
  using openSerialPort_effect [of window0 com3 Opens] com3_plain connected_message_plain [of com3]
  by (simp add: closeSerialPort_not_open window0_closed)
     (simp add: com3_def window0_def StewartPlatform_init_def form0_def currentTime_def noon_def)

text \<open>
  Claim C2. The claim holds of \<open>openSerialPort\<close> except for its last part, and the
  code misses that part at the following input: the new window, the settings for COM3
  with the port name "%2", and an open that succeeds. There the port is closed first
  and then open with the name "%2" and the other five values of the settings, the
  serial label shows "%2" and the send button is enabled, and exactly one line is
  logged; but that line has the baud rate where the port name belongs, so it does not
  record the full configuration. The label is made by one call of \<open>arg\<close>; the message
  is made by six chained calls, and the second call also replaces the marker that the
  first call has put in with the name.
\<close>

theorem openSerialPort_marker_in_name:
  "name (com3\<lparr>name := ''%2''\<rparr>) = ''%2''
   \<and> stringBaudRate (com3\<lparr>name := ''%2''\<rparr>) = ''9600''
   \<and> \<not> isOpen (m_serial (closeSerialPort window0))
   \<and> isOpen (m_serial (openSerialPort window0 (com3\<lparr>name := ''%2''\<rparr>) Opens))
   \<and> portName (m_serial (openSerialPort window0 (com3\<lparr>name := ''%2''\<rparr>) Opens)) = ''%2''
   \<and> portBaudRate (m_serial (openSerialPort window0 (com3\<lparr>name := ''%2''\<rparr>) Opens)) = 9600
   \<and> label_serial_val (ui (openSerialPort window0 (com3\<lparr>name := ''%2''\<rparr>) Opens)) = ''%2''
   \<and> button_send_enabled (ui (openSerialPort window0 (com3\<lparr>name := ''%2''\<rparr>) Opens))
   \<and> log_text (ui (openSerialPort window0 (com3\<lparr>name := ''%2''\<rparr>) Opens)) =
       [''(12:00:00) <COM>  Connected to 9600 : 9600, 8, None, 1, None'']"
proof -
  have "connected_message (com3\<lparr>name := ''%2''\<rparr>) =
      ''<COM>  Connected to 9600 : 9600, 8, None, 1, None''"
    by (simp add: connected_message_def com3_def tr_def QString_arg_def escape_after_def
        is_digit_def digit_value_def)
  then show ?thesis
    by (simp add: openSerialPort_Opens closeSerialPort_not_open window0_closed currentTime_def)
       (simp add: window0_def StewartPlatform_init_def form0_def noon_def com3_def)
qed

text \<open>
  Claim C3. In a state that the window has reached from its construction, when the
  open fails the port is closed afterwards, the send button is disabled, the port
  holds the error description, and the log has one more line than after the close:
  the time and "Connection error:" with that description.
\<close>

theorem openSerialPort_failure:
  "run es (StewartPlatform_init ui0 leap0 clk) = Inr st \<Longrightarrow>
   \<not> isOpen (m_serial (openSerialPort st p (Fails e)))
   \<and> \<not> button_send_enabled (ui (openSerialPort st p (Fails e)))
   \<and> errorString (m_serial (openSerialPort st p (Fails e))) = e
   \<and> log_text (ui (openSerialPort st p (Fails e))) =
       log_text (ui (closeSerialPort st)) @
         [''('' @ currentTime (closeSerialPort st) @ '') <COM>  Connection error: '' @ e]
   \<and> handle (SettingsUpdated p (Fails e)) st = Inr (openSerialPort st p (Fails e))"
proof -
  assume "run es (StewartPlatform_init ui0 leap0 clk) = Inr st"
  then have "consistent st" by (rule reachable_consistent)
  then have "consistent (closeSerialPort st)" by (rule consistent_closeSerialPort)
  then have "\<not> button_send_enabled (ui (closeSerialPort st))"
    by (simp add: consistent_def closeSerialPort_closed)
  then show ?thesis
    by (simp add: openSerialPort_Fails closeSerialPort_closed)
qed

text \<open>On the window connected to COM3, with a second open that fails.\<close>

theorem openSerialPort_failure_witness:
  "run [SettingsUpdated com3 Opens] (StewartPlatform_init form0 listener0 noon) =
     Inr (openSerialPort window0 com3 Opens)
   \<and> \<not> isOpen (m_serial (openSerialPort (openSerialPort window0 com3 Opens) com3
                            (Fails ''No such file or directory'')))
   \<and> \<not> button_send_enabled (ui (openSerialPort (openSerialPort window0 com3 Opens) com3
                                     (Fails ''No such file or directory'')))
   \<and> log_text (ui (openSerialPort (openSerialPort window0 com3 Opens) com3
                      (Fails ''No such file or directory''))) =
       [''(12:00:00) <COM>  Connected to COM3 : 9600, 8, None, 1, None'',
        ''(12:00:00) <COM>  Disconnected from COM3'',
        ''(12:00:00) <COM>  Connection error: No such file or directory'']"
proof -
  have r: "run [SettingsUpdated com3 Opens] (StewartPlatform_init form0 listener0 noon) =
     Inr (openSerialPort window0 com3 Opens)"
    by (simp add: window0_def)
  have c: "connected_message com3 = ''<COM>  Connected to COM3 : 9600, 8, None, 1, None''"
    using com3_plain connected_message_plain [of com3] by (simp add: com3_def)
  have l: "log_text (ui (closeSerialPort (openSerialPort window0 com3 Opens))) =
       [''(12:00:00) <COM>  Connected to COM3 : 9600, 8, None, 1, None'',
        ''(12:00:00) <COM>  Disconnected from COM3'']"
    using connected0_open
    by (simp add: closeSerialPort_open)
       (simp add: openSerialPort_Opens closeSerialPort_not_open window0_closed currentTime_def c,
        simp add: com3_def window0_def StewartPlatform_init_def form0_def noon_def)
  have t: "currentTime (closeSerialPort (openSerialPort window0 com3 Opens)) = ''12:00:00''"
    using connected0_open
    by (simp add: closeSerialPort_open currentTime_def)
       (simp add: openSerialPort_Opens closeSerialPort_not_open window0_closed,
        simp add: window0_def StewartPlatform_init_def noon_def)
  show ?thesis
    using r openSerialPort_failure [OF r, of com3 "''No such file or directory''"] l t
    by simp
qed

text \<open>
  Claim C4. The slot of the port's error signal is \<open>closeSerialPort\<close> and nothing else:
  afterwards the port is closed, with its configuration and written data as before; if it was open the
  send button is disabled; if it was closed the state is the same. Closing twice is
  closing once, and any number of error events in a row leave the state that the
  first one leaves.
\<close>

theorem errorOccurred_closes:
  "handle ErrorOccurred st = Inr (closeSerialPort st)
   \<and> \<not> isOpen (m_serial (closeSerialPort st))
   \<and> (isOpen (m_serial st) \<longrightarrow> \<not> button_send_enabled (ui (closeSerialPort st)))
   \<and> (\<not> isOpen (m_serial st) \<longrightarrow> closeSerialPort st = st)
   \<and> closeSerialPort (closeSerialPort st) = closeSerialPort st
   \<and> run (replicate (Suc n) ErrorOccurred) st = run [ErrorOccurred] st
   \<and> m_serial (closeSerialPort st) = (m_serial st)\<lparr>isOpen := False\<rparr>"
proof -
  have "isOpen (m_serial st) \<longrightarrow> \<not> button_send_enabled (ui (closeSerialPort st))"
    by (simp add: closeSerialPort_open)
  moreover have "run (replicate (Suc n) ErrorOccurred) st = run [ErrorOccurred] st"
    unfolding run_errors by simp
  ultimately show ?thesis
    by (simp add: closeSerialPort_closed closeSerialPort_not_open closeSerialPort_idem
        m_serial_closeSerialPort del: replicate.simps)
qed

text \<open>On the window connected to COM3, and on the new window.\<close>

theorem errorOccurred_closes_witness:
  "isOpen (m_serial (openSerialPort window0 com3 Opens))
   \<and> \<not> isOpen (m_serial (closeSerialPort (openSerialPort window0 com3 Opens)))
   \<and> \<not> button_send_enabled (ui (closeSerialPort (openSerialPort window0 com3 Opens)))
   \<and> run [ErrorOccurred, ErrorOccurred, ErrorOccurred] (openSerialPort window0 com3 Opens) =
       run [ErrorOccurred] (openSerialPort window0 com3 Opens)
   \<and> \<not> isOpen (m_serial window0) \<and> closeSerialPort window0 = window0"
  using errorOccurred_closes [of "openSerialPort window0 com3 Opens" 2]
    errorOccurred_closes [of window0 0] connected0_open window0_closed
  by (simp add: numeral_2_eq_2)



subsection \<open>Writing to the port\<close>

lemma length_six:
  "length v = NUM_ACTUATORS \<Longrightarrow> \<exists>a b c d e f. v = [a, b, c, d, e, f]"
  by (auto simp: NUM_ACTUATORS_def numeral_eq_Suc length_Suc_conv)

lemma sendActuatorPositions_loop_returns:
  "length v = NUM_ACTUATORS \<Longrightarrow> \<exists>s. sendActuatorPositions_loop v 0 [] = Inr s"
  using length_six [of v] sendActuatorPositions_loop_six by auto

lemma SendClicked_returns: "consistent st \<Longrightarrow> \<exists>st'. handle SendClicked st = Inr st'"
  using sendActuatorPositions_loop_returns [of "actuator_positions st"]
  by (auto simp: consistent_def sendActuatorPositions_def writeSerialData_def)

text \<open>
  In a state reached from the construction a click on the send button returns a state:
  the button is enabled only while the port is open, so the assertion of
  \<open>writeSerialData\<close> holds on this path. When the data handed to \<open>write\<close> reaches the
  wire is the toolkit's affair; the window never asks.
\<close>

lemma reachable_SendClicked_returns:
  "run es (StewartPlatform_init ui0 leap0 clk) = Inr st \<Longrightarrow> \<exists>st'. handle SendClicked st = Inr st'"
  using reachable_consistent SendClicked_returns by blast

subsection \<open>Leap Motion frames\<close>

lemma sendActuatorPositions_open:
  "isOpen (m_serial st) \<Longrightarrow>
   sendActuatorPositions st [a, b, c, d, e, f] =
     Inr (st\<lparr>m_serial := (m_serial st)\<lparr>written := written (m_serial st) @
       [QString_number a @ '' '' @ QString_number b @ '' '' @ QString_number c @ '' '' @
        QString_number d @ '' '' @ QString_number e @ '' '' @ QString_number f @ ''\<newline>'']\<rparr>\<rparr>)"
  by (simp add: sendActuatorPositions_def sendActuatorPositions_loop_six writeSerialData_def
      del: append.simps)

lemma sendActuatorPositions_closed:
  "\<not> isOpen (m_serial st) \<Longrightarrow>
   sendActuatorPositions st [a, b, c, d, e, f] = Inl (Q_ASSERT ''m_serial->isOpen()'')"
  by (simp add: sendActuatorPositions_def sendActuatorPositions_loop_six writeSerialData_def
      del: append.simps)

lemma sendActuatorPositions_frame:
  "sendActuatorPositions st v = Inr st' \<Longrightarrow>
   actuator_positions st' = actuator_positions st \<and> ui st' = ui st \<and> leap st' = leap st"
  by (auto simp: sendActuatorPositions_def writeSerialData_def split: sum.splits if_splits)

text \<open>
  A frame of six values at the listener, on the gate taken from the spec: while the
  listener's flag is off, the window is left as it is. While the flag is on and the
  port is open, the command line of the six values is appended once to the port's
  written data and nothing else changes. Whenever the slot returns, the actuator
  positions are those of before.
\<close>

lemma LeapFrame_forwarding:
  "(\<not> is_leap_enabled (leap st) \<longrightarrow> handle (LeapFrame [a, b, c, d, e, f]) st = Inr st)
   \<and> (is_leap_enabled (leap st) \<and> isOpen (m_serial st) \<longrightarrow>
        handle (LeapFrame [a, b, c, d, e, f]) st =
          Inr (st\<lparr>m_serial := (m_serial st)\<lparr>written := written (m_serial st) @
            [QString_number a @ '' '' @ QString_number b @ '' '' @ QString_number c @ '' '' @
             QString_number d @ '' '' @ QString_number e @ '' '' @ QString_number f @
             ''\<newline>'']\<rparr>\<rparr>))
   \<and> (isOpen (m_serial st) \<longrightarrow>
        (\<exists>st'. handle (LeapFrame [a, b, c, d, e, f]) st = Inr st'
           \<and> (is_leap_enabled (leap st) \<longleftrightarrow>
                written (m_serial st') = written (m_serial st) @
                  [QString_number a @ '' '' @ QString_number b @ '' '' @ QString_number c @
                   '' '' @ QString_number d @ '' '' @ QString_number e @ '' '' @
                   QString_number f @ ''\<newline>''])))
   \<and> (handle (LeapFrame v) st = Inr st' \<longrightarrow> actuator_positions st' = actuator_positions st)"
proof -
  have frame: "handle (LeapFrame v) st = Inr st' \<longrightarrow> actuator_positions st' = actuator_positions st"
    by (auto simp: LeapFrameUpdate_emitted_def dest: sendActuatorPositions_frame split: if_splits)
  show ?thesis
    using frame
    by (simp add: LeapFrameUpdate_emitted_def sendActuatorPositions_open del: append.simps)
qed

text \<open>On the window connected to COM3, with the flag off and then on.\<close>

lemma LeapFrame_forwarding_com3:
  "\<not> is_leap_enabled (leap (openSerialPort window0 com3 Opens))
   \<and> handle (LeapFrame [1, 2, 3, 4, 5, 6]) (openSerialPort window0 com3 Opens) =
       Inr (openSerialPort window0 com3 Opens)
   \<and> is_leap_enabled (leap (enableLeapMotion (openSerialPort window0 com3 Opens) True))
   \<and> isOpen (m_serial (enableLeapMotion (openSerialPort window0 com3 Opens) True))
   \<and> (\<exists>st'. handle (LeapFrame [1, 2, 3, 4, 5, 6])
               (enableLeapMotion (openSerialPort window0 com3 Opens) True) = Inr st'
         \<and> written (m_serial st') = [''1 2 3 4 5 6\<newline>'']
         \<and> actuator_positions st' = [0, 0, 0, 0, 0, 0])"
proof -
  let ?s = "openSerialPort window0 com3 Opens"
  let ?t = "enableLeapMotion ?s True"
  have off: "\<not> is_leap_enabled (leap ?s)"
    by (simp add: openSerialPort_Opens closeSerialPort_not_open window0_closed)
       (simp add: window0_def StewartPlatform_init_def listener0_def)
  have on: "is_leap_enabled (leap ?t) \<and> isOpen (m_serial ?t)"
    by (simp add: enableLeapMotion_def connected0_open)
  have w: "written (m_serial ?t) = []"
    by (simp add: enableLeapMotion_def m_serial_openSerialPort_Opens)
       (simp add: window0_def StewartPlatform_init_def QSerialPort_new_def)
  have a: "actuator_positions ?t = [0, 0, 0, 0, 0, 0]"
    by (simp add: enableLeapMotion_def openSerialPort_Opens closeSerialPort_not_open window0_closed)
       (simp add: window0_def StewartPlatform_init_def)
  have n: "QString_number 1 = ''1''" "QString_number 2 = ''2''" "QString_number 3 = ''3''"
    "QString_number 4 = ''4''" "QString_number 5 = ''5''" "QString_number 6 = ''6''"
    by (simp_all add: QString_number_def digits_of.simps digit_char_def)
  show ?thesis
    using LeapFrame_forwarding [of ?s 1 2 3 4 5 6]
      LeapFrame_forwarding [of ?t 1 2 3 4 5 6 "[1, 2, 3, 4, 5, 6]"] off on w a
    by (auto simp: n)
qed

text \<open>
  Claim C7. The code misses the claim at the following input: the new window with the
  checkbox switched on (so the listener's flag is set and the port is closed) and the
  frame 1, 2, 3, 4, 5, 6. The slot of \<open>LeapFrameUpdate\<close> is \<open>sendActuatorPositions\<close>,
  which does not look at the port: it fails the assertion of \<open>writeSerialData\<close>, no
  line is written to the port, and no state is returned. The manual send has the guard
  that this path lacks: in the same state a click on the send button does nothing,
  since the button is disabled while the port is closed.
\<close>

theorem LeapFrame_while_disconnected:
  "run [LeapMotionToggled True] window0 = Inr (enableLeapMotion window0 True)
   \<and> is_leap_enabled (leap (enableLeapMotion window0 True))
   \<and> \<not> isOpen (m_serial (enableLeapMotion window0 True))
   \<and> written (m_serial (enableLeapMotion window0 True)) = []
   \<and> sendActuatorPositions (enableLeapMotion window0 True) [1, 2, 3, 4, 5, 6] =
       Inl (Q_ASSERT ''m_serial->isOpen()'')
   \<and> handle (LeapFrame [1, 2, 3, 4, 5, 6]) (enableLeapMotion window0 True) =
       Inl (Q_ASSERT ''m_serial->isOpen()'')
   \<and> handle SendClicked (enableLeapMotion window0 True) = Inr (enableLeapMotion window0 True)"
proof -
  have closed: "\<not> isOpen (m_serial (enableLeapMotion window0 True))"
    by (simp add: enableLeapMotion_def window0_closed)
  have rest: "written (m_serial (enableLeapMotion window0 True)) = []
      \<and> \<not> button_send_enabled (ui (enableLeapMotion window0 True))"
    by (simp add: enableLeapMotion_def window0_def StewartPlatform_init_def QSerialPort_new_def)
  show ?thesis
    using closed rest
    by (simp add: sendActuatorPositions_closed LeapFrameUpdate_emitted_def)
       (simp add: enableLeapMotion_def)
qed

text \<open>
  Claim C8. The slot of the checkbox is \<open>enableLeapMotion\<close>. Switching on disables the
  actuator box and sets the listener's flag; switching off enables the box and clears
  the flag. From a state with the box enabled and the flag clear, on and then off
  gives the state back; from a state with the box disabled and the flag set, off and
  then on gives it back. The last of two toggles alone decides the result.
\<close>

theorem enableLeapMotion_toggle:
  "handle (LeapMotionToggled c) st = Inr (enableLeapMotion st c)
   \<and> \<not> actuatorBox_enabled (ui (enableLeapMotion st True))
   \<and> is_leap_enabled (leap (enableLeapMotion st True))
   \<and> actuatorBox_enabled (ui (enableLeapMotion st False))
   \<and> \<not> is_leap_enabled (leap (enableLeapMotion st False))
   \<and> (actuatorBox_enabled (ui st) \<and> \<not> is_leap_enabled (leap st) \<longrightarrow>
        enableLeapMotion (enableLeapMotion st True) False = st)
   \<and> (\<not> actuatorBox_enabled (ui st) \<and> is_leap_enabled (leap st) \<longrightarrow>
        enableLeapMotion (enableLeapMotion st False) True = st)
   \<and> enableLeapMotion (enableLeapMotion st c) c' = enableLeapMotion st c'"
  by (auto simp: enableLeapMotion_def)

text \<open>On the new window.\<close>

theorem enableLeapMotion_toggle_witness:
  "actuatorBox_enabled (ui window0) \<and> \<not> is_leap_enabled (leap window0)
   \<and> enableLeapMotion (enableLeapMotion window0 True) False = window0
   \<and> \<not> actuatorBox_enabled (ui (enableLeapMotion window0 True))
   \<and> is_leap_enabled (leap (enableLeapMotion window0 True))
   \<and> enableLeapMotion (enableLeapMotion (enableLeapMotion window0 True) False) True =
       enableLeapMotion window0 True"
proof -
  have h: "actuatorBox_enabled (ui window0) \<and> \<not> is_leap_enabled (leap window0)"
    by (simp add: window0_def StewartPlatform_init_def form0_def listener0_def)
  show ?thesis
    using h enableLeapMotion_toggle [of True window0 False]
      enableLeapMotion_toggle [of True "enableLeapMotion window0 True" True]
    by simp
qed

text \<open>
  Claim C9. After construction and a switch of the checkbox to on, the flag is set and
  the port is closed; \<open>sendActuatorPositions\<close> on six values then fails the assertion
  of \<open>writeSerialData\<close>, and so does the run of the toggle followed by a frame. On
  any state with a closed port \<open>sendActuatorPositions\<close> fails that assertion: it does
  not look at the port before it writes.
\<close>

theorem LeapFrame_unchecked_write:
  "run [LeapMotionToggled True] (StewartPlatform_init ui0 leap0 clk) =
     Inr (enableLeapMotion (StewartPlatform_init ui0 leap0 clk) True)
   \<and> is_leap_enabled (leap (enableLeapMotion (StewartPlatform_init ui0 leap0 clk) True))
   \<and> \<not> isOpen (m_serial (enableLeapMotion (StewartPlatform_init ui0 leap0 clk) True))
   \<and> sendActuatorPositions (enableLeapMotion (StewartPlatform_init ui0 leap0 clk) True)
        [a, b, c, d, e, f] = Inl (Q_ASSERT ''m_serial->isOpen()'')
   \<and> run [LeapMotionToggled True, LeapFrame [a, b, c, d, e, f]]
        (StewartPlatform_init ui0 leap0 clk) = Inl (Q_ASSERT ''m_serial->isOpen()'')
   \<and> (\<not> isOpen (m_serial st) \<longrightarrow>
        sendActuatorPositions st [a, b, c, d, e, f] = Inl (Q_ASSERT ''m_serial->isOpen()''))"
proof -
  let ?t = "enableLeapMotion (StewartPlatform_init ui0 leap0 clk) True"
  have closed: "\<not> isOpen (m_serial ?t)"
    by (simp add: enableLeapMotion_def StewartPlatform_init_def QSerialPort_new_def)
  have on: "is_leap_enabled (leap ?t)"
    by (simp add: enableLeapMotion_def)
  show ?thesis
    using closed on
    by (simp add: sendActuatorPositions_closed LeapFrameUpdate_emitted_def)
qed

text \<open>On the new window.\<close>

theorem LeapFrame_unchecked_write_witness:
  "\<not> isOpen (m_serial window0)
   \<and> sendActuatorPositions window0 [1, 2, 3, 4, 5, 6] = Inl (Q_ASSERT ''m_serial->isOpen()'')
   \<and> run [LeapMotionToggled True, LeapFrame [1, 2, 3, 4, 5, 6]] window0 =
       Inl (Q_ASSERT ''m_serial->isOpen()'')"
  using LeapFrame_unchecked_write [of form0 listener0 noon 1 2 3 4 5 6 window0] window0_closed
  by (simp add: window0_def)

subsection \<open>The new window\<close>

text \<open>
  Claim C10. After the constructor the positions are six zeros, the send button is
  disabled, both status labels read "Disconnected", the port is closed and nothing
  has been written. A successful open followed by a click on the send button returns
  a state in which the written data is the single line "0 0 0 0 0 0" and a newline.
\<close>

theorem StewartPlatform_init_state:
  "actuator_positions (StewartPlatform_init ui0 leap0 clk) = [0, 0, 0, 0, 0, 0]
   \<and> \<not> button_send_enabled (ui (StewartPlatform_init ui0 leap0 clk))
   \<and> label_serial_val (ui (StewartPlatform_init ui0 leap0 clk)) = ''Disconnected''
   \<and> label_leap_val (ui (StewartPlatform_init ui0 leap0 clk)) = ''Disconnected''
   \<and> \<not> isOpen (m_serial (StewartPlatform_init ui0 leap0 clk))
   \<and> written (m_serial (StewartPlatform_init ui0 leap0 clk)) = []
   \<and> (\<exists>st'. run [SettingsUpdated p Opens, SendClicked] (StewartPlatform_init ui0 leap0 clk) =
               Inr st'
         \<and> written (m_serial st') = [''0 0 0 0 0 0\<newline>''])"
proof -
  let ?i = "StewartPlatform_init ui0 leap0 clk"
  let ?s = "openSerialPort ?i p Opens"
  have closed: "\<not> isOpen (m_serial ?i)"
    by (simp add: StewartPlatform_init_def QSerialPort_new_def)
  have s: "isOpen (m_serial ?s) \<and> button_send_enabled (ui ?s) \<and> written (m_serial ?s) = []
      \<and> actuator_positions ?s = [0, 0, 0, 0, 0, 0]"
    by (simp add: openSerialPort_Opens closeSerialPort_not_open closed)
       (simp add: StewartPlatform_init_def QSerialPort_new_def)
  then have "\<exists>st'. run [SettingsUpdated p Opens, SendClicked] ?i = Inr st'
         \<and> written (m_serial st') = [''0 0 0 0 0 0\<newline>'']"
    by (simp add: sendActuatorPositions_open QString_number_0)
  then show ?thesis
    by (simp add: StewartPlatform_init_def QSerialPort_new_def tr_def)
qed

end
